theory Spec2Isabelle
  imports Complex_Main
begin

section \<open>Status codes\<close>

text \<open>The integer constants of \<^verbatim>\<open>filial.py\<close>, lines 13 to 19.\<close>

definition OPERACAO_REALIZADA_COM_SUCESSO :: int where
  "OPERACAO_REALIZADA_COM_SUCESSO = 0"

definition ARQUIVO_NAO_ENCONTRADO :: int where
  "ARQUIVO_NAO_ENCONTRADO = 30"

definition ARQUIVO_EM_FORMATO_INVALIDO :: int where
  "ARQUIVO_EM_FORMATO_INVALIDO = 31"

definition ERRO_NA_ESCRITA_DO_ARQUIVO :: int where
  "ERRO_NA_ESCRITA_DO_ARQUIVO = 32"

definition FILIAL_NAO_ENCONTRADA :: int where
  "FILIAL_NAO_ENCONTRADA = 33"

definition ERRO_DESCONHECIDO :: int where
  "ERRO_DESCONHECIDO = 34"

definition BAIRRO_NAO_ENCONTRADO :: int where
  "BAIRRO_NAO_ENCONTRADO = 35"

section \<open>The values \<^verbatim>\<open>json.load\<close> returns\<close>

text \<open>
  \<^verbatim>\<open>json.load\<close> yields \<^verbatim>\<open>None\<close>, a \<^verbatim>\<open>bool\<close>, an unbounded \<^verbatim>\<open>int\<close>, a
  \<^verbatim>\<open>float\<close>, a \<^verbatim>\<open>str\<close>, a \<^verbatim>\<open>list\<close> or a \<^verbatim>\<open>dict\<close> with string keys. A finite
  float is the rational it denotes (Python compares floats with ints exactly); the decoder
  also accepts the three non-finite constants. A \<^verbatim>\<open>dict\<close> is an association list in
  insertion order, read through \<^const>\<open>map_of\<close>.
\<close>

datatype pyfloat = Finite rat | PosInf | NegInf | NaN

datatype json =
    JNull
  | JBool bool
  | JInt int
  | JFloat pyfloat
  | JStr string
  | JArr "json list"
  | JObj "(string \<times> json) list"

text \<open>
  The exceptions the five functions can meet. The \<^verbatim>\<open>except\<close> clauses tell
  \<^verbatim>\<open>FileNotFoundError\<close> and \<^verbatim>\<open>json.JSONDecodeError\<close> apart; every other one is
  caught by \<^verbatim>\<open>except Exception\<close>.
\<close>

datatype exn =
    FileNotFoundError
  | JSONDecodeError
  | PermissionError
  | KeyError
  | TypeError
  | AttributeError
  | ValueError

text \<open>The numeric value of \<^verbatim>\<open>bool\<close>, \<^verbatim>\<open>int\<close> and finite \<^verbatim>\<open>float\<close>.\<close>

fun py_num :: "json \<Rightarrow> rat option" where
  "py_num (JBool b) = Some (if b then 1 else 0)"
| "py_num (JInt n) = Some (of_int n)"
| "py_num (JFloat (Finite q)) = Some q"
| "py_num _ = None"

text \<open>
  Python's \<^verbatim>\<open>==\<close> on such values, as \<^verbatim>\<open>list.remove\<close> and the comparisons inside
  containers apply it: numbers of the three numeric types compare by value, strings,
  lists and \<^verbatim>\<open>None\<close> structurally, dicts by their key sets and the values under each key.
  (The decoder returns one shared object for \<^verbatim>\<open>NaN\<close>, and the container comparisons
  test identity first, so \<^verbatim>\<open>NaN\<close> is equal to itself there.)
\<close>

function py_eq :: "json \<Rightarrow> json \<Rightarrow> bool" where
  "py_eq (JArr xs) w =
     (case w of JArr ys \<Rightarrow> list_all2 py_eq xs ys | _ \<Rightarrow> False)"
| "py_eq (JObj a) w =
     (case w of
        JObj b \<Rightarrow>
          set (map fst a) = set (map fst b) \<and>
          (\<forall>k \<in> set (map fst a).
             case map_of a k of
               None \<Rightarrow> False
             | Some u \<Rightarrow> (case map_of b k of None \<Rightarrow> False | Some u' \<Rightarrow> py_eq u u'))
      | _ \<Rightarrow> False)"
| "py_eq (JStr s) w = (case w of JStr t \<Rightarrow> s = t | _ \<Rightarrow> False)"
| "py_eq JNull w = (case w of JNull \<Rightarrow> True | _ \<Rightarrow> False)"
| "py_eq (JFloat f) w =
     (case w of
        JFloat g \<Rightarrow> f = g
      | _ \<Rightarrow> (case py_num (JFloat f) of None \<Rightarrow> False | Some q \<Rightarrow> py_num w = Some q))"
| "py_eq (JInt n) w = (py_num w = Some (of_int n))"
| "py_eq (JBool b) w = (py_num w = Some (if b then 1 else 0))"
  by pat_completeness auto
termination
proof -
  have under_key: "size v < Suc (size_list (size_prod (\<lambda>_. 0) size) kvs)"
    if "map_of kvs k = Some (v::json)" for kvs k v
    using that by (induction kvs) (auto split: if_splits)
  show ?thesis
    by (relation "measure (\<lambda>(v, w). size v)")
       (auto dest: under_key simp: less_Suc_eq_le size_list_estimation')
qed

section \<open>Python operations on the loaded value\<close>

text \<open>
  Iteration (\<^verbatim>\<open>for f in filiais\<close>): a list yields its elements, a dict its keys, a
  string its characters as one-character strings; any other value raises
  \<^verbatim>\<open>TypeError\<close>.
\<close>

fun py_iter :: "json \<Rightarrow> exn + json list" where
  "py_iter (JArr xs) = Inr xs"
| "py_iter (JObj kvs) = Inr (map (\<lambda>kv. JStr (fst kv)) kvs)"
| "py_iter (JStr s) = Inr (map (\<lambda>c. JStr [c]) s)"
| "py_iter _ = Inl TypeError"

text \<open>
  Subscription with a string key (\<^verbatim>\<open>f['id']\<close>): a dict looks the key up and raises
  \<^verbatim>\<open>KeyError\<close> when it is absent; every other value raises \<^verbatim>\<open>TypeError\<close>.
\<close>

fun subscript :: "json \<Rightarrow> string \<Rightarrow> exn + json" where
  "subscript (JObj kvs) k = (case map_of kvs k of None \<Rightarrow> Inl KeyError | Some v \<Rightarrow> Inr v)"
| "subscript _ k = Inl TypeError"

text \<open>Truth value (\<^verbatim>\<open>if filial:\<close>).\<close>

fun py_truthy :: "json \<Rightarrow> bool" where
  "py_truthy JNull = False"
| "py_truthy (JBool b) = b"
| "py_truthy (JInt n) = (n \<noteq> 0)"
| "py_truthy (JFloat f) = (f \<noteq> Finite 0)"
| "py_truthy (JStr s) = (s \<noteq> [])"
| "py_truthy (JArr xs) = (xs \<noteq> [])"
| "py_truthy (JObj kvs) = (kvs \<noteq> [])"

text \<open>
  \<^verbatim>\<open>filiais.append(x)\<close>: only a list has the method; on a dict or a string the
  attribute lookup raises \<^verbatim>\<open>AttributeError\<close>, as it does on every other value.
\<close>

fun py_append :: "json \<Rightarrow> json \<Rightarrow> exn + json" where
  "py_append (JArr xs) x = Inr (JArr (xs @ [x]))"
| "py_append _ x = Inl AttributeError"

text \<open>
  \<^verbatim>\<open>filiais.remove(x)\<close>: deletes the first element equal to \<^verbatim>\<open>x\<close> and raises
  \<^verbatim>\<open>ValueError\<close> when there is none.
\<close>

fun list_remove :: "json list \<Rightarrow> json \<Rightarrow> exn + json list" where
  "list_remove [] x = Inl ValueError"
| "list_remove (y # ys) x =
     (if py_eq y x then Inr ys
      else (case list_remove ys x of Inl e \<Rightarrow> Inl e | Inr zs \<Rightarrow> Inr (y # zs)))"

fun py_remove :: "json \<Rightarrow> json \<Rightarrow> exn + json" where
  "py_remove (JArr xs) x = (case list_remove xs x of Inl e \<Rightarrow> Inl e | Inr ys \<Rightarrow> Inr (JArr ys))"
| "py_remove _ x = Inl AttributeError"

text \<open>
  \<^verbatim>\<open>any(f['id'] == id for f in filiais)\<close> on the iterated elements: stops at the
  first element whose id equals \<^verbatim>\<open>id\<close>; an element without the key raises before
  the later ones are looked at.
\<close>

fun any_id :: "json list \<Rightarrow> int \<Rightarrow> exn + bool" where
  "any_id [] i = Inr False"
| "any_id (f # fs) i =
     (case subscript f ''id'' of
        Inl e \<Rightarrow> Inl e
      | Inr v \<Rightarrow> if py_eq v (JInt i) then Inr True else any_id fs i)"

text \<open>
  The scan shared by the \<^verbatim>\<open>for\<close> loop of \<^verbatim>\<open>del_filial\<close> and by
  \<^verbatim>\<open>next((f for f in filiais if f['id'] == id), None)\<close> in \<^verbatim>\<open>get_filial\<close>: the
  first element whose id equals \<^verbatim>\<open>id\<close>, or \<^verbatim>\<open>None\<close>.
\<close>

fun first_with_id :: "json list \<Rightarrow> int \<Rightarrow> exn + json option" where
  "first_with_id [] i = Inr None"
| "first_with_id (f # fs) i =
     (case subscript f ''id'' of
        Inl e \<Rightarrow> Inl e
      | Inr v \<Rightarrow> if py_eq v (JInt i) then Inr (Some f) else first_with_id fs i)"

text \<open>
  The list comprehension of \<^verbatim>\<open>get_filiais\<close>:
  \<^verbatim>\<open>[{'nome': f['nome'], 'bairro': f['bairro']} for f in filiais]\<close>.
\<close>

definition nome_bairro :: "json \<Rightarrow> exn + json" where
  "nome_bairro f =
     (case subscript f ''nome'' of
        Inl e \<Rightarrow> Inl e
      | Inr n \<Rightarrow>
          (case subscript f ''bairro'' of
             Inl e \<Rightarrow> Inl e
           | Inr b \<Rightarrow> Inr (JObj [(''nome'', n), (''bairro'', b)])))"

fun nome_bairro_all :: "json list \<Rightarrow> exn + json list" where
  "nome_bairro_all [] = Inr []"
| "nome_bairro_all (f # fs) =
     (case nome_bairro f of
        Inl e \<Rightarrow> Inl e
      | Inr r \<Rightarrow> (case nome_bairro_all fs of Inl e \<Rightarrow> Inl e | Inr rs \<Rightarrow> Inr (r # rs)))"

section \<open>The backing file\<close>

text \<open>
  The file at \<^verbatim>\<open>_FILIAIS_JSON_FILE_PATH\<close> is absent, or holds text that
  \<^verbatim>\<open>json.load\<close> rejects with \<^verbatim>\<open>JSONDecodeError\<close>, or holds the text of a value.
  \<^verbatim>\<open>json.dump\<close> followed by \<^verbatim>\<open>json.load\<close> gives the value back, so a file that
  parses is kept as its value. \<^verbatim>\<open>open(path, 'w')\<close> raises \<^verbatim>\<open>PermissionError\<close> on
  a file that cannot be written, before anything is truncated.
\<close>

datatype file_content = Missing | Malformed | Parsed json

record file_state =
  content :: file_content
  writable :: bool

definition load_filiais :: "file_state \<Rightarrow> exn + json" where
  "load_filiais s =
     (case content s of
        Missing \<Rightarrow> Inl FileNotFoundError
      | Malformed \<Rightarrow> Inl JSONDecodeError
      | Parsed v \<Rightarrow> Inr v)"

definition dump_filiais :: "json \<Rightarrow> file_state \<Rightarrow> exn + file_state" where
  "dump_filiais v s =
     (if writable s then Inr (s\<lparr>content := Parsed v\<rparr>) else Inl PermissionError)"

text \<open>The three \<^verbatim>\<open>except\<close> clauses every file-backed function ends with.\<close>

fun except_status :: "exn \<Rightarrow> int" where
  "except_status FileNotFoundError = ARQUIVO_NAO_ENCONTRADO"
| "except_status JSONDecodeError = ARQUIVO_EM_FORMATO_INVALIDO"
| "except_status _ = ERRO_DESCONHECIDO"

section \<open>The five functions\<close>

text \<open>
  Each file-backed function is a \<^verbatim>\<open>try\<close> body and its handlers: the \<open>_try\<close>
  definition is the body, with every exception as an \<open>Inl\<close>, and the function proper maps
  an exception to the status its \<^verbatim>\<open>except\<close> clause returns. The file is as the body
  found it when an exception is raised. The parameter \<^verbatim>\<open>id\<close> is written \<open>i\<close>.

  \<^verbatim>\<open>add_filial\<close> (lines 21 to 59): load, refuse an id that some record already has,
  append the new record, write the list back.
\<close>

definition add_filial_try :: "int \<Rightarrow> string \<Rightarrow> string \<Rightarrow> file_state \<Rightarrow> exn + int \<times> file_state" where
  "add_filial_try i nome bairro s =
     (case load_filiais s of
        Inl e \<Rightarrow> Inl e
      | Inr filiais \<Rightarrow>
          (case py_iter filiais of
             Inl e \<Rightarrow> Inl e
           | Inr fs \<Rightarrow>
               (case any_id fs i of
                  Inl e \<Rightarrow> Inl e
                | Inr True \<Rightarrow> Inr (ERRO_DESCONHECIDO, s)
                | Inr False \<Rightarrow>
                    (case py_append filiais
                            (JObj [(''id'', JInt i), (''nome'', JStr nome), (''bairro'', JStr bairro)]) of
                       Inl e \<Rightarrow> Inl e
                     | Inr filiais' \<Rightarrow>
                         (case dump_filiais filiais' s of
                            Inl e \<Rightarrow> Inl e
                          | Inr s' \<Rightarrow> Inr (OPERACAO_REALIZADA_COM_SUCESSO, s'))))))"

definition add_filial :: "int \<Rightarrow> string \<Rightarrow> string \<Rightarrow> file_state \<Rightarrow> int \<times> file_state" where
  "add_filial i nome bairro s =
     (case add_filial_try i nome bairro s of
        Inl e \<Rightarrow> (except_status e, s)
      | Inr r \<Rightarrow> r)"

text \<open>
  \<^verbatim>\<open>del_filial\<close> (lines 61 to 97): load, scan for the first record with the id, remove
  it from the list and stop scanning, refuse when none was found, write the list back.
\<close>

definition del_filial_try :: "int \<Rightarrow> file_state \<Rightarrow> exn + int \<times> file_state" where
  "del_filial_try id_filial s =
     (case load_filiais s of
        Inl e \<Rightarrow> Inl e
      | Inr filiais \<Rightarrow>
          (case py_iter filiais of
             Inl e \<Rightarrow> Inl e
           | Inr fs \<Rightarrow>
               (case first_with_id fs id_filial of
                  Inl e \<Rightarrow> Inl e
                | Inr None \<Rightarrow> Inr (ERRO_DESCONHECIDO, s)
                | Inr (Some filial) \<Rightarrow>
                    (case py_remove filiais filial of
                       Inl e \<Rightarrow> Inl e
                     | Inr filiais' \<Rightarrow>
                         (case dump_filiais filiais' s of
                            Inl e \<Rightarrow> Inl e
                          | Inr s' \<Rightarrow> Inr (OPERACAO_REALIZADA_COM_SUCESSO, s'))))))"

definition del_filial :: "int \<Rightarrow> file_state \<Rightarrow> int \<times> file_state" where
  "del_filial id_filial s =
     (case del_filial_try id_filial s of
        Inl e \<Rightarrow> (except_status e, s)
      | Inr r \<Rightarrow> r)"

text \<open>
  \<^verbatim>\<open>get_filial\<close> (lines 99 to 122): load, take the first record with the id; when there
  is one (and it is truthy) return its name and neighbourhood.
\<close>

definition get_filial_try :: "int \<Rightarrow> file_state \<Rightarrow> exn + int \<times> json option" where
  "get_filial_try i s =
     (case load_filiais s of
        Inl e \<Rightarrow> Inl e
      | Inr filiais \<Rightarrow>
          (case py_iter filiais of
             Inl e \<Rightarrow> Inl e
           | Inr fs \<Rightarrow>
               (case first_with_id fs i of
                  Inl e \<Rightarrow> Inl e
                | Inr None \<Rightarrow> Inr (FILIAL_NAO_ENCONTRADA, None)
                | Inr (Some filial) \<Rightarrow>
                    if py_truthy filial then
                      (case nome_bairro filial of
                         Inl e \<Rightarrow> Inl e
                       | Inr r \<Rightarrow> Inr (OPERACAO_REALIZADA_COM_SUCESSO, Some r))
                    else Inr (FILIAL_NAO_ENCONTRADA, None))))"

definition get_filial :: "int \<Rightarrow> file_state \<Rightarrow> int \<times> json option" where
  "get_filial i s =
     (case get_filial_try i s of
        Inl e \<Rightarrow> (except_status e, None)
      | Inr r \<Rightarrow> r)"

text \<open>\<^verbatim>\<open>get_filiais\<close> (lines 124 to 141): load, return name and neighbourhood of every record.\<close>

definition get_filiais_try :: "file_state \<Rightarrow> exn + int \<times> json list" where
  "get_filiais_try s =
     (case load_filiais s of
        Inl e \<Rightarrow> Inl e
      | Inr filiais \<Rightarrow>
          (case py_iter filiais of
             Inl e \<Rightarrow> Inl e
           | Inr fs \<Rightarrow>
               (case nome_bairro_all fs of
                  Inl e \<Rightarrow> Inl e
                | Inr rs \<Rightarrow> Inr (OPERACAO_REALIZADA_COM_SUCESSO, rs))))"

definition get_filiais :: "file_state \<Rightarrow> int \<times> json list" where
  "get_filiais s =
     (case get_filiais_try s of
        Inl e \<Rightarrow> (except_status e, [])
      | Inr r \<Rightarrow> r)"

text \<open>
  \<^verbatim>\<open>get_filial_proxima\<close> (lines 143 to 167): the local table and the \<^verbatim>\<open>for\<close> loop
  over it, which returns at the first entry whose name equals the argument; the loop's
  \<^verbatim>\<open>else\<close> branch runs when no entry did. There is no \<^verbatim>\<open>try\<close> and no file access.
\<close>

definition filial_mais_proxima :: "(string \<times> int) list" where
  "filial_mais_proxima =
     [(''Tijuca'', 1), (''Ipanema'', 2), (''Andarai'', 1), (''Leblon'', 2),
      (''Grajau'', 1), (''Gavea'', 2), (''Vila Isabel'', 1)]"

fun scan_bairro :: "(string \<times> int) list \<Rightarrow> string \<Rightarrow> int \<times> int option" where
  "scan_bairro [] bairro = (BAIRRO_NAO_ENCONTRADO, None)"
| "scan_bairro (bairro_tuple # rest) bairro =
     (if fst bairro_tuple = bairro then (OPERACAO_REALIZADA_COM_SUCESSO, Some (snd bairro_tuple))
      else scan_bairro rest bairro)"

definition get_filial_proxima :: "string \<Rightarrow> int \<times> int option" where
  "get_filial_proxima bairro = scan_bairro filial_mais_proxima bairro"

section \<open>The public interface\<close>

text \<open>
  \<^verbatim>\<open>__all__\<close> exports the five functions. A call names one of them with its arguments;
  \<open>run\<close> applies it to the file and gives what the function returns and the file it leaves.
  \<^verbatim>\<open>get_filial_proxima\<close> takes no part of the file.
\<close>

datatype call =
    Add_filial int string string
  | Del_filial int
  | Get_filial int
  | Get_filiais
  | Get_filial_proxima string

datatype outcome =
    Status int
  | StatusFilial int "json option"
  | StatusFiliais int "json list"
  | StatusId int "int option"

fun run :: "call \<Rightarrow> file_state \<Rightarrow> outcome \<times> file_state" where
  "run (Add_filial i nome bairro) s = (case add_filial i nome bairro s of (c, s') \<Rightarrow> (Status c, s'))"
| "run (Del_filial i) s = (case del_filial i s of (c, s') \<Rightarrow> (Status c, s'))"
| "run (Get_filial i) s = (case get_filial i s of (c, r) \<Rightarrow> (StatusFilial c r, s))"
| "run Get_filiais s = (case get_filiais s of (c, rs) \<Rightarrow> (StatusFiliais c rs, s))"
| "run (Get_filial_proxima bairro) s = (case get_filial_proxima bairro of (c, r) \<Rightarrow> (StatusId c r, s))"

fun status :: "outcome \<Rightarrow> int" where
  "status (Status c) = c"
| "status (StatusFilial c r) = c"
| "status (StatusFiliais c rs) = c"
| "status (StatusId c r) = c"

section \<open>Vocabulary of the properties\<close>

text \<open>A stored element carries an id; it carries an id equal to \<open>i\<close>.\<close>

definition has_id :: "json \<Rightarrow> bool" where
  "has_id f = (case subscript f ''id'' of Inl e \<Rightarrow> False | Inr v \<Rightarrow> True)"

definition has_id_eq :: "json \<Rightarrow> int \<Rightarrow> bool" where
  "has_id_eq f i = (case subscript f ''id'' of Inl e \<Rightarrow> False | Inr v \<Rightarrow> py_eq v (JInt i))"

text \<open>The id \<open>i\<close> is present in what the file holds: some element it iterates over carries it.\<close>

definition id_present :: "json \<Rightarrow> int \<Rightarrow> bool" where
  "id_present v i = (case py_iter v of Inl e \<Rightarrow> False | Inr fs \<Rightarrow> list_ex (\<lambda>f. has_id_eq f i) fs)"

text \<open>Every element carries an id, and no two elements carry equal ids.\<close>

fun unique_ids :: "json list \<Rightarrow> bool" where
  "unique_ids [] = True"
| "unique_ids (f # fs) =
     (case subscript f ''id'' of
        Inl e \<Rightarrow> False
      | Inr v \<Rightarrow>
          list_all (\<lambda>g. case subscript g ''id'' of Inl e \<Rightarrow> False | Inr w \<Rightarrow> \<not> py_eq v w) fs \<and>
          unique_ids fs)"

text \<open>An element carries a name and a neighbourhood.\<close>

definition has_nome_bairro :: "json \<Rightarrow> bool" where
  "has_nome_bairro f = (case nome_bairro f of Inl e \<Rightarrow> False | Inr r \<Rightarrow> True)"

text \<open>
  The spec's reduction of a record to \<open>{name, neighborhood}\<close>: the two fields under their
  keys, the id (and any other key) dropped.
\<close>

definition spec_field :: "json \<Rightarrow> string \<Rightarrow> json" where
  "spec_field f k = (case f of JObj kvs \<Rightarrow> (case map_of kvs k of Some v \<Rightarrow> v | None \<Rightarrow> JNull) | _ \<Rightarrow> JNull)"

definition spec_reduced :: "json \<Rightarrow> json" where
  "spec_reduced f = JObj [(''nome'', spec_field f ''nome''), (''bairro'', spec_field f ''bairro'')]"

text \<open>The calls that open the backing file: all but \<^verbatim>\<open>get_filial_proxima\<close>.\<close>

fun file_backed :: "call \<Rightarrow> bool" where
  "file_backed (Get_filial_proxima bairro) = False"
| "file_backed c = True"

section \<open>Facts about the Python operations\<close>

lemmas status_defs =
  OPERACAO_REALIZADA_COM_SUCESSO_def ARQUIVO_NAO_ENCONTRADO_def
  ARQUIVO_EM_FORMATO_INVALIDO_def ERRO_NA_ESCRITA_DO_ARQUIVO_def
  FILIAL_NAO_ENCONTRADA_def ERRO_DESCONHECIDO_def BAIRRO_NAO_ENCONTRADO_def

lemma py_eq_refl: "py_eq v v"
proof (induction v)
  case (JArr xs)
  then show ?case by (simp add: list_all2_same)
next
  case (JObj kvs)
  have "py_eq u u" if "map_of kvs k = Some u" for k u
  proof -
    from that have "(k, u) \<in> set kvs" by (rule map_of_SomeD)
    then show ?thesis using JObj.IH by fastforce
  qed
  moreover have "map_of kvs k \<noteq> None" if "k \<in> set (map fst kvs)" for k
    using that by (simp add: map_of_eq_None_iff)
  ultimately show ?case by (auto split: option.splits)
qed simp_all

lemma py_eq_JInt: "py_eq v (JInt i) = (py_num v = Some (of_int i))"
  by (cases v rule: py_num.cases) (auto split: if_splits)

lemma py_num_eq: "py_num v = Some q \<Longrightarrow> py_num w = Some q \<Longrightarrow> py_eq v w"
  by (cases v rule: py_num.cases; cases w rule: py_num.cases) (auto split: if_splits)

lemma py_eq_JObj_id:
  assumes "py_eq (JObj a) (JObj b)" and "map_of b k = Some w"
  shows "\<exists>v. map_of a k = Some v \<and> py_eq v w"
proof -
  have raw: "set (map fst a) = set (map fst b) \<and>
          (\<forall>k \<in> set (map fst a).
             case map_of a k of
               None \<Rightarrow> False
             | Some u \<Rightarrow> (case map_of b k of None \<Rightarrow> False | Some u' \<Rightarrow> py_eq u u'))"
    using assms(1) unfolding py_eq.simps json.case .
  from assms(2) have "(k, w) \<in> set b" by (rule map_of_SomeD)
  then have "k \<in> set (map fst b)" by force
  with raw have k: "k \<in> set (map fst a)" by blast
  from raw k have "case map_of a k of None \<Rightarrow> False
             | Some u \<Rightarrow> (case map_of b k of None \<Rightarrow> False | Some u' \<Rightarrow> py_eq u u')"
    by blast
  with assms(2) show ?thesis by (auto split: option.splits)
qed


lemma subscript_exn: "subscript f k = Inl e \<Longrightarrow> e = KeyError \<or> e = TypeError"
  by (cases f) (auto split: option.splits)

lemma subscript_Inr: "subscript f k = Inr v \<Longrightarrow> \<exists>kvs. f = JObj kvs \<and> map_of kvs k = Some v"
  by (cases f) (auto split: option.splits)

lemma any_id_exn: "any_id fs i = Inl e \<Longrightarrow> e = KeyError \<or> e = TypeError"
  by (induction fs) (auto split: sum.splits if_splits dest: subscript_exn)

lemma first_with_id_exn: "first_with_id fs i = Inl e \<Longrightarrow> e = KeyError \<or> e = TypeError"
  by (induction fs) (auto split: sum.splits if_splits dest: subscript_exn)

lemma any_id_absent:
  "list_all has_id fs \<Longrightarrow> \<not> list_ex (\<lambda>f. has_id_eq f i) fs \<Longrightarrow> any_id fs i = Inr False"
  by (induction fs) (auto simp: has_id_def has_id_eq_def split: sum.splits)

lemma first_with_id_absent:
  "list_all has_id fs \<Longrightarrow> \<not> list_ex (\<lambda>f. has_id_eq f i) fs \<Longrightarrow> first_with_id fs i = Inr None"
  by (induction fs) (auto simp: has_id_def has_id_eq_def split: sum.splits)

lemma any_id_present:
  "list_ex (\<lambda>f. has_id_eq f i) fs \<Longrightarrow> any_id fs i = Inr True \<or> (\<exists>e. any_id fs i = Inl e)"
  by (induction fs) (auto simp: has_id_eq_def split: sum.splits)

lemma first_with_id_not_present:
  "\<not> list_ex (\<lambda>f. has_id_eq f i) fs \<Longrightarrow>
     first_with_id fs i = Inr None \<or> (\<exists>e. first_with_id fs i = Inl e)"
  by (induction fs) (auto simp: has_id_eq_def split: sum.splits)

lemma first_with_id_append:
  "first_with_id fs i = Inr None \<Longrightarrow> first_with_id (fs @ gs) i = first_with_id gs i"
  by (induction fs) (auto split: sum.splits if_splits)

lemma first_with_id_Some:
  "first_with_id fs i = Inr (Some f) \<Longrightarrow>
     f \<in> set fs \<and> (\<exists>w. subscript f ''id'' = Inr w \<and> py_eq w (JInt i))"
  by (induction fs) (auto split: sum.splits if_splits)

lemma except_status_scan: "e = KeyError \<or> e = TypeError \<Longrightarrow> except_status e = ERRO_DESCONHECIDO"
  by auto

lemma unique_ids_tail_absent:
  assumes "subscript f ''id'' = Inr v" and "py_eq v (JInt i)"
    and "list_all (\<lambda>g. case subscript g ''id'' of Inl e \<Rightarrow> False | Inr w \<Rightarrow> \<not> py_eq v w) fs"
  shows "first_with_id fs i = Inr None"
  using assms(3)
proof (induction fs)
  case Nil
  show ?case by simp
next
  case (Cons g gs)
  then obtain w where w: "subscript g ''id'' = Inr w" "\<not> py_eq v w"
    by (auto split: sum.splits)
  have "\<not> py_eq w (JInt i)"
  proof
    assume "py_eq w (JInt i)"
    then have "py_num w = Some (of_int i)" by (simp only: py_eq_JInt)
    moreover from assms(2) have "py_num v = Some (of_int i)" by (simp only: py_eq_JInt)
    ultimately have "py_eq v w" by (rule py_num_eq[rotated])
    with w(2) show False by simp
  qed
  with w Cons show ?case by simp
qed

lemma list_remove_found:
  "unique_ids fs \<Longrightarrow> first_with_id fs i = Inr (Some f) \<Longrightarrow>
     \<exists>gs. list_remove fs f = Inr gs \<and> first_with_id gs i = Inr None"
proof (induction fs)
  case Nil
  then show ?case by simp
next
  case (Cons x xs)
  from Cons.prems(1) obtain v where v: "subscript x ''id'' = Inr v"
    and later: "list_all (\<lambda>g. case subscript g ''id'' of Inl e \<Rightarrow> False | Inr w \<Rightarrow> \<not> py_eq v w) xs"
    and uniq: "unique_ids xs"
    by (auto split: sum.splits)
  show ?case
  proof (cases "py_eq v (JInt i)")
    case True
    with v Cons.prems(2) have "f = x" by simp
    moreover have "first_with_id xs i = Inr None"
      using v True later by (rule unique_ids_tail_absent)
    ultimately show ?thesis by (simp add: py_eq_refl)
  next
    case False
    with v Cons.prems(2) have found: "first_with_id xs i = Inr (Some f)" by simp
    then obtain w where fin: "f \<in> set xs" and w: "subscript f ''id'' = Inr w"
      by (auto dest: first_with_id_Some)
    from later fin w have neq: "\<not> py_eq v w"
      by (auto simp: list_all_iff split: sum.splits)
    have "\<not> py_eq x f"
    proof
      assume eq: "py_eq x f"
      from v obtain a where a: "x = JObj a" "map_of a ''id'' = Some v"
        by (auto dest: subscript_Inr)
      from w obtain b where b: "f = JObj b" "map_of b ''id'' = Some w"
        by (auto dest: subscript_Inr)
      from eq have "py_eq (JObj a) (JObj b)" unfolding a(1) b(1) .
      from py_eq_JObj_id[OF this b(2)] a(2) have "py_eq v w" by simp
      with neq show False by simp
    qed
    moreover from Cons.IH[OF uniq found] obtain gs
      where "list_remove xs f = Inr gs" "first_with_id gs i = Inr None" by blast
    ultimately show ?thesis using v False by simp
  qed
qed

lemma id_present_JArr: "id_present (JArr xs) i = list_ex (\<lambda>f. has_id_eq f i) xs"
  by (simp add: id_present_def)

lemma add_filial_scan_raises:
  assumes "content s = Parsed v" and "py_iter v = Inr fs" and "any_id fs i = Inl e"
  shows "add_filial i nome bairro s = (ERRO_DESCONHECIDO, s)"
proof -
  from assms(3) have "except_status e = ERRO_DESCONHECIDO"
    by (intro except_status_scan any_id_exn)
  with assms show ?thesis
    by (simp add: add_filial_def add_filial_try_def load_filiais_def)
qed

lemma py_eq_num: "py_eq v w \<Longrightarrow> py_num w = Some q \<Longrightarrow> py_num v = Some q"
  by (cases v rule: py_num.cases; cases w rule: py_num.cases) (auto split: if_splits)

lemma list_remove_scanned:
  "first_with_id fs i = Inr (Some f) \<Longrightarrow>
     \<exists>pre post. fs = pre @ f # post \<and> \<not> list_ex (\<lambda>g. has_id_eq g i) pre \<and> has_id_eq f i \<and>
       list_remove fs f = Inr (pre @ post)"
proof (induction fs)
  case Nil
  then show ?case by simp
next
  case (Cons x xs)
  from Cons.prems obtain v where v: "subscript x ''id'' = Inr v"
    by (auto split: sum.splits)
  show ?case
  proof (cases "py_eq v (JInt i)")
    case True
    with v Cons.prems have "f = x" by simp
    with v True have "x # xs = [] @ f # xs \<and> \<not> list_ex (\<lambda>g. has_id_eq g i) [] \<and> has_id_eq f i \<and>
       list_remove (x # xs) f = Inr ([] @ xs)"
      by (simp add: has_id_eq_def py_eq_refl)
    then show ?thesis by blast
  next
    case False
    with v Cons.prems have found: "first_with_id xs i = Inr (Some f)" by simp
    from Cons.IH[OF found] obtain pre post
      where dec: "xs = pre @ f # post" and pre: "\<not> list_ex (\<lambda>g. has_id_eq g i) pre"
        and f: "has_id_eq f i" and rm: "list_remove xs f = Inr (pre @ post)"
      by blast
    from f obtain w where w: "subscript f ''id'' = Inr w" "py_eq w (JInt i)"
      by (auto simp: has_id_eq_def split: sum.splits)
    have "\<not> py_eq x f"
    proof
      assume eq: "py_eq x f"
      from v obtain a where a: "x = JObj a" "map_of a ''id'' = Some v"
        by (auto dest: subscript_Inr)
      from w(1) obtain b where b: "f = JObj b" "map_of b ''id'' = Some w"
        by (auto dest: subscript_Inr)
      from eq have "py_eq (JObj a) (JObj b)" unfolding a(1) b(1) .
      from py_eq_JObj_id[OF this b(2)] a(2) have "py_eq v w" by simp
      moreover from w(2) have "py_num w = Some (of_int i)" by (simp only: py_eq_JInt)
      ultimately have "py_num v = Some (of_int i)" by (rule py_eq_num)
      then have "py_eq v (JInt i)" by (simp only: py_eq_JInt)
      with False show False by simp
    qed
    with rm have "list_remove (x # xs) f = Inr ((x # pre) @ post)" by simp
    moreover from dec have "x # xs = (x # pre) @ f # post" by simp
    moreover from pre v False have "\<not> list_ex (\<lambda>g. has_id_eq g i) (x # pre)"
      by (simp add: has_id_eq_def)
    ultimately show ?thesis using f by blast
  qed
qed

lemma nome_bairro_reduced:
  "has_nome_bairro f \<Longrightarrow> nome_bairro f = Inr (spec_reduced f)"
  by (cases f)
     (auto simp: has_nome_bairro_def nome_bairro_def spec_reduced_def spec_field_def
           split: sum.splits option.splits)

lemma nome_bairro_all_reduced:
  "list_all has_nome_bairro fs \<Longrightarrow> nome_bairro_all fs = Inr (map spec_reduced fs)"
  by (induction fs) (auto simp: nome_bairro_reduced)

lemma except_status_range: "except_status e \<in> {30, 31, 34}"
  by (cases e) (simp_all add: status_defs)

lemma add_filial_range: "fst (add_filial i n b s) \<in> {0, 30, 31, 34}"
proof (cases "add_filial_try i n b s")
  case (Inl e)
  then show ?thesis using except_status_range[of e] by (auto simp: add_filial_def)
next
  case (Inr r)
  then have "fst r = 0 \<or> fst r = 34"
    by (auto simp: add_filial_try_def status_defs split: sum.splits bool.splits)
  with Inr show ?thesis by (auto simp: add_filial_def)
qed

lemma del_filial_range: "fst (del_filial i s) \<in> {0, 30, 31, 34}"
proof (cases "del_filial_try i s")
  case (Inl e)
  then show ?thesis using except_status_range[of e] by (auto simp: del_filial_def)
next
  case (Inr r)
  then have "fst r = 0 \<or> fst r = 34"
    by (auto simp: del_filial_try_def status_defs split: sum.splits option.splits)
  with Inr show ?thesis by (auto simp: del_filial_def)
qed

lemma get_filial_range: "fst (get_filial i s) \<in> {0, 30, 31, 33, 34}"
proof (cases "get_filial_try i s")
  case (Inl e)
  then show ?thesis using except_status_range[of e] by (auto simp: get_filial_def)
next
  case (Inr r)
  then have "fst r = 0 \<or> fst r = 33"
    by (auto simp: get_filial_try_def status_defs split: sum.splits option.splits if_splits)
  with Inr show ?thesis by (auto simp: get_filial_def)
qed

lemma get_filiais_range: "fst (get_filiais s) \<in> {0, 30, 31, 34}"
proof (cases "get_filiais_try s")
  case (Inl e)
  then show ?thesis using except_status_range[of e] by (auto simp: get_filiais_def)
next
  case (Inr r)
  then have "fst r = 0"
    by (auto simp: get_filiais_try_def status_defs split: sum.splits)
  with Inr show ?thesis by (auto simp: get_filiais_def)
qed

lemma scan_bairro_range: "fst (scan_bairro tab bairro) \<in> {0, 35}"
  by (induction tab) (auto simp: status_defs)

lemma run_status_range: "status (fst (run c s)) \<in> {0, 30, 31, 33, 34, 35}"
proof (cases c)
  case (Add_filial i n b)
  then show ?thesis using add_filial_range[of i n b s] by (auto split: prod.splits)
next
  case (Del_filial i)
  then show ?thesis using del_filial_range[of i s] by (auto split: prod.splits)
next
  case (Get_filial i)
  then show ?thesis using get_filial_range[of i s] by (auto split: prod.splits)
next
  case Get_filiais
  then show ?thesis using get_filiais_range[of s] by (auto split: prod.splits)
next
  case (Get_filial_proxima b)
  then show ?thesis using scan_bairro_range[of filial_mais_proxima b]
    by (auto simp: get_filial_proxima_def split: prod.splits)
qed

lemma add_filial_write_fails:
  assumes "\<not> writable s" and "fst (add_filial i n b (s\<lparr>writable := True\<rparr>)) = 0"
  shows "add_filial i n b s = (34, s)"
proof -
  have "except_status e \<noteq> 0" for e using except_status_range[of e] by auto
  with assms show ?thesis
    by (auto simp: add_filial_def add_filial_try_def load_filiais_def dump_filiais_def status_defs
        split: sum.splits bool.splits file_content.splits)
qed

lemma del_filial_write_fails:
  assumes "\<not> writable s" and "fst (del_filial i (s\<lparr>writable := True\<rparr>)) = 0"
  shows "del_filial i s = (34, s)"
proof -
  have "except_status e \<noteq> 0" for e using except_status_range[of e] by auto
  with assms show ?thesis
    by (auto simp: del_filial_def del_filial_try_def load_filiais_def dump_filiais_def status_defs
        split: sum.splits option.splits file_content.splits)
qed

section \<open>Properties\<close>

subsection \<open>The nearest branch\<close>

text \<open>
  C5. \<^verbatim>\<open>get_filial_proxima\<close> looks the neighbourhood up by exact string match in the
  fixed table Tijuca 1, Ipanema 2, Andarai 1, Leblon 2, Grajau 1, Gavea 2, Vila Isabel 1:
  it returns success with the branch id of the matching entry, and the
  neighbourhood-not-found status with no id when no entry matches. In particular
  Ipanema gives success and 2, Copacabana gives 35 and no id.
\<close>

theorem nearest_branch_table:
  "get_filial_proxima bairro =
     (case map_of [(''Tijuca'', 1), (''Ipanema'', 2), (''Andarai'', 1), (''Leblon'', 2),
                   (''Grajau'', 1), (''Gavea'', 2), (''Vila Isabel'', 1)] bairro of
        Some branch \<Rightarrow> (OPERACAO_REALIZADA_COM_SUCESSO, Some branch)
      | None \<Rightarrow> (BAIRRO_NAO_ENCONTRADO, None))
   \<and> get_filial_proxima ''Ipanema'' = (0, Some 2)
   \<and> get_filial_proxima ''Copacabana'' = (35, None)"
  by (simp add: get_filial_proxima_def filial_mais_proxima_def status_defs)

text \<open>
  C10. The result of \<^verbatim>\<open>get_filial_proxima\<close> depends on its argument alone: under any
  two states of the backing file (missing and corrupt ones included) the call returns the
  same status and branch id, and it leaves the file as it found it.
\<close>

theorem nearest_branch_ignores_file:
  "fst (run (Get_filial_proxima bairro) s1) = fst (run (Get_filial_proxima bairro) s2) \<and>
   snd (run (Get_filial_proxima bairro) s1) = s1"
  by (simp split: prod.splits)

subsection \<open>Missing and malformed files\<close>

text \<open>
  C7. Each of \<^verbatim>\<open>add_filial\<close>, \<^verbatim>\<open>del_filial\<close>, \<^verbatim>\<open>get_filial\<close> and
  \<^verbatim>\<open>get_filiais\<close> returns the file-not-found status 30 when the backing file does not
  exist, and the invalid-format status 31 when its content is not valid JSON.
\<close>

theorem file_errors_uniform:
  "(content s = Missing \<longrightarrow>
      fst (add_filial i nome bairro s) = 30 \<and>
      fst (del_filial i s) = 30 \<and>
      get_filial i s = (30, None) \<and>
      get_filiais s = (30, [])) \<and>
   (content s = Malformed \<longrightarrow>
      fst (add_filial i nome bairro s) = 31 \<and>
      fst (del_filial i s) = 31 \<and>
      get_filial i s = (31, None) \<and>
      get_filiais s = (31, []))"
  by (simp add: add_filial_def add_filial_try_def del_filial_def del_filial_try_def
      get_filial_def get_filial_try_def get_filiais_def get_filiais_try_def load_filiais_def
      status_defs)

theorem file_errors_uniform_witness:
  "fst (add_filial 7 ''Centro'' ''Tijuca'' \<lparr>content = Missing, writable = True\<rparr>) = 30 \<and>
   fst (del_filial 7 \<lparr>content = Missing, writable = True\<rparr>) = 30 \<and>
   get_filial 7 \<lparr>content = Missing, writable = True\<rparr> = (30, None) \<and>
   get_filiais \<lparr>content = Missing, writable = True\<rparr> = (30, []) \<and>
   fst (add_filial 7 ''Centro'' ''Tijuca'' \<lparr>content = Malformed, writable = True\<rparr>) = 31 \<and>
   fst (del_filial 7 \<lparr>content = Malformed, writable = True\<rparr>) = 31 \<and>
   get_filial 7 \<lparr>content = Malformed, writable = True\<rparr> = (31, None) \<and>
   get_filiais \<lparr>content = Malformed, writable = True\<rparr> = (31, [])"
  using file_errors_uniform [of "\<lparr>content = Missing, writable = True\<rparr>" 7 "''Centro''" "''Tijuca''"]
    file_errors_uniform [of "\<lparr>content = Malformed, writable = True\<rparr>" 7 "''Centro''" "''Tijuca''"]
  by simp

subsection \<open>Creating and deleting\<close>

text \<open>
  C2. When the id is already present in the stored sequence, \<^verbatim>\<open>add_filial\<close> returns
  the generic unknown-error status 34 (the module has no status for a duplicate id) and
  leaves the backing file as it was: nothing is appended and nothing is written.
\<close>

theorem create_duplicate_id:
  assumes "content s = Parsed v" and "id_present v i"
  shows "add_filial i nome bairro s = (34, s)"
proof -
  from assms(2) obtain fs where fs: "py_iter v = Inr fs" and ex: "list_ex (\<lambda>f. has_id_eq f i) fs"
    by (auto simp: id_present_def split: sum.splits)
  from any_id_present[OF ex] show ?thesis
  proof
    assume "any_id fs i = Inr True"
    with assms(1) fs show ?thesis
      by (simp add: add_filial_def add_filial_try_def load_filiais_def ERRO_DESCONHECIDO_def)
  next
    assume "\<exists>e. any_id fs i = Inl e"
    then obtain e where "any_id fs i = Inl e" ..
    from add_filial_scan_raises[OF assms(1) fs this] show ?thesis
      by (simp add: ERRO_DESCONHECIDO_def)
  qed
qed

theorem create_duplicate_id_witness:
  "add_filial 1 ''Norte'' ''Leblon''
     \<lparr>content = Parsed (JArr [JObj [(''id'', JInt 1), (''nome'', JStr ''Centro''), (''bairro'', JStr ''Tijuca'')]]),
      writable = True\<rparr>
   = (34, \<lparr>content = Parsed (JArr [JObj [(''id'', JInt 1), (''nome'', JStr ''Centro''), (''bairro'', JStr ''Tijuca'')]]),
      writable = True\<rparr>)"
  using create_duplicate_id
    [where s = "\<lparr>content = Parsed (JArr [JObj [(''id'', JInt 1), (''nome'', JStr ''Centro''), (''bairro'', JStr ''Tijuca'')]]),
                 writable = True\<rparr>"
       and v = "JArr [JObj [(''id'', JInt 1), (''nome'', JStr ''Centro''), (''bairro'', JStr ''Tijuca'')]]"
       and i = 1 and nome = "''Norte''" and bairro = "''Leblon''"]
  by (simp add: id_present_def has_id_eq_def)

text \<open>
  C3. When the backing file exists and holds valid JSON in which the id is not present,
  \<^verbatim>\<open>del_filial\<close> returns the generic unknown-error status 34 and leaves the backing
  file as it was.
\<close>

theorem delete_absent_id:
  assumes "content s = Parsed v" and "\<not> id_present v i"
  shows "del_filial i s = (34, s)"
proof (cases "py_iter v")
  case (Inl e)
  then have "e = TypeError" by (cases v) auto
  with Inl assms(1) show ?thesis
    by (simp add: del_filial_def del_filial_try_def load_filiais_def ERRO_DESCONHECIDO_def)
next
  case (Inr fs)
  with assms(2) have "\<not> list_ex (\<lambda>f. has_id_eq f i) fs"
    by (simp add: id_present_def)
  from first_with_id_not_present[OF this] show ?thesis
  proof
    assume "first_with_id fs i = Inr None"
    with assms(1) Inr show ?thesis
      by (simp add: del_filial_def del_filial_try_def load_filiais_def ERRO_DESCONHECIDO_def)
  next
    assume "\<exists>e. first_with_id fs i = Inl e"
    then obtain e where e: "first_with_id fs i = Inl e" ..
    then have "except_status e = ERRO_DESCONHECIDO"
      by (intro except_status_scan first_with_id_exn)
    with assms(1) Inr e show ?thesis
      by (simp add: del_filial_def del_filial_try_def load_filiais_def ERRO_DESCONHECIDO_def)
  qed
qed

theorem delete_absent_id_witness:
  "del_filial 2
     \<lparr>content = Parsed (JArr [JObj [(''id'', JInt 1), (''nome'', JStr ''Centro''), (''bairro'', JStr ''Tijuca'')]]),
      writable = True\<rparr>
   = (34, \<lparr>content = Parsed (JArr [JObj [(''id'', JInt 1), (''nome'', JStr ''Centro''), (''bairro'', JStr ''Tijuca'')]]),
      writable = True\<rparr>)"
  using delete_absent_id
    [where s = "\<lparr>content = Parsed (JArr [JObj [(''id'', JInt 1), (''nome'', JStr ''Centro''), (''bairro'', JStr ''Tijuca'')]]),
                 writable = True\<rparr>"
       and v = "JArr [JObj [(''id'', JInt 1), (''nome'', JStr ''Centro''), (''bairro'', JStr ''Tijuca'')]]"
       and i = 2]
  by (simp add: id_present_def has_id_eq_def)

text \<open>
  C1, as stated: given that the backing file exists and holds valid JSON, and the id is
  not present in the stored sequence, \<^verbatim>\<open>add_filial\<close> returns success. It does
  not when the file cannot be opened for writing: \<^verbatim>\<open>open(path, 'w')\<close> raises,
  \<^verbatim>\<open>except Exception\<close> catches it, and the function returns 34.
\<close>

theorem create_unwritable_counterexample:
  "content \<lparr>content = Parsed (JArr [JObj [(''id'', JInt 1), (''nome'', JStr ''Centro''), (''bairro'', JStr ''Tijuca'')]]),
            writable = False\<rparr> =
     Parsed (JArr [JObj [(''id'', JInt 1), (''nome'', JStr ''Centro''), (''bairro'', JStr ''Tijuca'')]]) \<and>
   \<not> id_present (JArr [JObj [(''id'', JInt 1), (''nome'', JStr ''Centro''), (''bairro'', JStr ''Tijuca'')]]) 2 \<and>
   fst (add_filial 2 ''Sul'' ''Leblon''
     \<lparr>content = Parsed (JArr [JObj [(''id'', JInt 1), (''nome'', JStr ''Centro''), (''bairro'', JStr ''Tijuca'')]]),
      writable = False\<rparr>) = 34 \<and>
   fst (add_filial 2 ''Sul'' ''Leblon''
     \<lparr>content = Parsed (JArr [JObj [(''id'', JInt 1), (''nome'', JStr ''Centro''), (''bairro'', JStr ''Tijuca'')]]),
      writable = False\<rparr>) \<noteq> OPERACAO_REALIZADA_COM_SUCESSO"
  by (simp add: add_filial_def add_filial_try_def load_filiais_def dump_filiais_def
      id_present_def has_id_eq_def status_defs)

text \<open>
  C1, amended. When the backing file holds a JSON array of records, each carrying an id
  and none of the ids equal to \<open>i\<close>, and the file can be written, \<^verbatim>\<open>add_filial i n b\<close>
  returns success and leaves the array with the record \<open>{id: i, nome: n, bairro: b}\<close>
  appended; \<^verbatim>\<open>get_filial i\<close> on the file it leaves returns success together with
  \<open>{nome: n, bairro: b}\<close>, the id dropped.
\<close>

theorem create_then_get:
  assumes "content s = Parsed (JArr xs)" and "list_all has_id xs"
    and "\<not> id_present (JArr xs) i" and "writable s"
  shows "add_filial i n b s =
           (0, s\<lparr>content := Parsed (JArr (xs @ [JObj [(''id'', JInt i), (''nome'', JStr n), (''bairro'', JStr b)]]))\<rparr>) \<and>
         get_filial i (snd (add_filial i n b s)) =
           (0, Some (JObj [(''nome'', JStr n), (''bairro'', JStr b)]))"
proof -
  let ?r = "JObj [(''id'', JInt i), (''nome'', JStr n), (''bairro'', JStr b)]"
  let ?s' = "s\<lparr>content := Parsed (JArr (xs @ [?r]))\<rparr>"
  from assms(3) have absent: "\<not> list_ex (\<lambda>f. has_id_eq f i) xs"
    by (simp add: id_present_JArr)
  have "any_id xs i = Inr False"
    using assms(2) absent by (rule any_id_absent)
  with assms(1,4) have add: "add_filial i n b s = (0, ?s')"
    by (simp add: add_filial_def add_filial_try_def load_filiais_def dump_filiais_def
        OPERACAO_REALIZADA_COM_SUCESSO_def)
  have "first_with_id xs i = Inr None"
    using assms(2) absent by (rule first_with_id_absent)
  then have "first_with_id (xs @ [?r]) i = first_with_id [?r] i"
    by (rule first_with_id_append)
  then have "first_with_id (xs @ [?r]) i = Inr (Some ?r)"
    by simp
  then have "get_filial i ?s' = (0, Some (JObj [(''nome'', JStr n), (''bairro'', JStr b)]))"
    by (simp add: get_filial_def get_filial_try_def load_filiais_def nome_bairro_def
        OPERACAO_REALIZADA_COM_SUCESSO_def)
  with add show ?thesis by simp
qed

theorem create_then_get_witness:
  "add_filial 2 ''Sul'' ''Leblon''
     \<lparr>content = Parsed (JArr [JObj [(''id'', JInt 1), (''nome'', JStr ''Centro''), (''bairro'', JStr ''Tijuca'')]]),
      writable = True\<rparr> =
     (0, \<lparr>content = Parsed (JArr [JObj [(''id'', JInt 1), (''nome'', JStr ''Centro''), (''bairro'', JStr ''Tijuca'')],
                                  JObj [(''id'', JInt 2), (''nome'', JStr ''Sul''), (''bairro'', JStr ''Leblon'')]]),
          writable = True\<rparr>) \<and>
   get_filial 2 (snd (add_filial 2 ''Sul'' ''Leblon''
     \<lparr>content = Parsed (JArr [JObj [(''id'', JInt 1), (''nome'', JStr ''Centro''), (''bairro'', JStr ''Tijuca'')]]),
      writable = True\<rparr>)) =
     (0, Some (JObj [(''nome'', JStr ''Sul''), (''bairro'', JStr ''Leblon'')]))"
proof -
  let ?xs = "[JObj [(''id'', JInt 1), (''nome'', JStr ''Centro''), (''bairro'', JStr ''Tijuca'')]]"
  let ?s = "\<lparr>content = Parsed (JArr ?xs), writable = True\<rparr>"
  have c: "content ?s = Parsed (JArr ?xs)" by simp
  have h: "list_all has_id ?xs" by (simp add: has_id_def)
  have a: "\<not> id_present (JArr ?xs) 2" by (simp add: id_present_def has_id_eq_def)
  have w: "writable ?s" by simp
  from create_then_get[OF c h a w, of "''Sul''" "''Leblon''"] show ?thesis by clarsimp
qed

text \<open>
  C4. When every stored element carries an id and no two of them carry equal ids, a
  \<^verbatim>\<open>del_filial i\<close> that returns success leaves a file on which \<^verbatim>\<open>get_filial i\<close>
  returns the branch-not-found status 33 and no record. What it removed is one record, the
  first whose id equals \<open>i\<close>.
\<close>

theorem delete_then_get:
  assumes "content s = Parsed (JArr xs)" and "unique_ids xs"
    and "fst (del_filial i s) = 0"
  shows "get_filial i (snd (del_filial i s)) = (33, None) \<and>
         (\<exists>pre f post.
            xs = pre @ f # post \<and> \<not> list_ex (\<lambda>g. has_id_eq g i) pre \<and> has_id_eq f i \<and>
            snd (del_filial i s) = s\<lparr>content := Parsed (JArr (pre @ post))\<rparr>)"
proof (cases "first_with_id xs i")
  case (Inl e)
  then have "except_status e = ERRO_DESCONHECIDO"
    by (intro except_status_scan first_with_id_exn)
  with Inl assms(1) have "fst (del_filial i s) = 34"
    by (simp add: del_filial_def del_filial_try_def load_filiais_def ERRO_DESCONHECIDO_def)
  with assms(3) show ?thesis by simp
next
  case (Inr found)
  show ?thesis
  proof (cases found)
    case None
    with Inr assms(1) have "fst (del_filial i s) = 34"
      by (simp add: del_filial_def del_filial_try_def load_filiais_def ERRO_DESCONHECIDO_def)
    with assms(3) show ?thesis by simp
  next
    case (Some filial)
    with Inr have found: "first_with_id xs i = Inr (Some filial)" by simp
    from list_remove_scanned[OF found] obtain pre post
      where dec: "xs = pre @ filial # post" and pre: "\<not> list_ex (\<lambda>g. has_id_eq g i) pre"
        and fil: "has_id_eq filial i" and rm: "list_remove xs filial = Inr (pre @ post)"
      by blast
    from list_remove_found[OF assms(2) found] rm
    have gone: "first_with_id (pre @ post) i = Inr None" by auto
    show ?thesis
    proof (cases "writable s")
      case False
      with assms(1) found rm have "fst (del_filial i s) = 34"
        by (simp add: del_filial_def del_filial_try_def load_filiais_def dump_filiais_def
            ERRO_DESCONHECIDO_def)
      with assms(3) show ?thesis by simp
    next
      case True
      with assms(1) found rm
      have del: "del_filial i s = (0, s\<lparr>content := Parsed (JArr (pre @ post))\<rparr>)"
        by (simp add: del_filial_def del_filial_try_def load_filiais_def dump_filiais_def
            OPERACAO_REALIZADA_COM_SUCESSO_def)
      from gone have "get_filial i (s\<lparr>content := Parsed (JArr (pre @ post))\<rparr>) = (33, None)"
        by (simp add: get_filial_def get_filial_try_def load_filiais_def FILIAL_NAO_ENCONTRADA_def)
      with del have "get_filial i (snd (del_filial i s)) = (33, None)" by simp
      moreover from del have "snd (del_filial i s) = s\<lparr>content := Parsed (JArr (pre @ post))\<rparr>"
        by simp
      ultimately show ?thesis using dec pre fil by blast
    qed
  qed
qed

theorem delete_then_get_witness:
  "fst (del_filial 1
     \<lparr>content = Parsed (JArr [JObj [(''id'', JInt 1), (''nome'', JStr ''Centro''), (''bairro'', JStr ''Tijuca'')],
                              JObj [(''id'', JInt 2), (''nome'', JStr ''Sul''), (''bairro'', JStr ''Leblon'')]]),
      writable = True\<rparr>) = 0 \<and>
   get_filial 1 (snd (del_filial 1
     \<lparr>content = Parsed (JArr [JObj [(''id'', JInt 1), (''nome'', JStr ''Centro''), (''bairro'', JStr ''Tijuca'')],
                              JObj [(''id'', JInt 2), (''nome'', JStr ''Sul''), (''bairro'', JStr ''Leblon'')]]),
      writable = True\<rparr>)) = (33, None)"
proof -
  let ?xs = "[JObj [(''id'', JInt 1), (''nome'', JStr ''Centro''), (''bairro'', JStr ''Tijuca'')],
              JObj [(''id'', JInt 2), (''nome'', JStr ''Sul''), (''bairro'', JStr ''Leblon'')]]"
  let ?s = "\<lparr>content = Parsed (JArr ?xs), writable = True\<rparr>"
  have c: "content ?s = Parsed (JArr ?xs)" by simp
  have u: "unique_ids ?xs" by simp
  have d: "fst (del_filial 1 ?s) = 0"
    by (simp add: del_filial_def del_filial_try_def load_filiais_def dump_filiais_def
        OPERACAO_REALIZADA_COM_SUCESSO_def)
  from d delete_then_get[OF c u d] show ?thesis by simp
qed

subsection \<open>Listing\<close>

text \<open>
  C6. When the backing file holds a JSON array of records, each with a name and a
  neighbourhood, \<^verbatim>\<open>get_filiais\<close> returns success together with exactly those records
  in storage order, each reduced to \<open>{nome, bairro}\<close> with the id dropped.
\<close>

theorem list_all_in_order:
  assumes "content s = Parsed (JArr xs)" and "list_all has_nome_bairro xs"
  shows "get_filiais s = (0, map spec_reduced xs)"
  using assms
  by (simp add: get_filiais_def get_filiais_try_def load_filiais_def nome_bairro_all_reduced
      OPERACAO_REALIZADA_COM_SUCESSO_def)

theorem list_all_in_order_witness:
  "get_filiais
     \<lparr>content = Parsed (JArr [JObj [(''id'', JInt 2), (''nome'', JStr ''Sul''), (''bairro'', JStr ''Leblon'')],
                              JObj [(''id'', JInt 1), (''nome'', JStr ''Centro''), (''bairro'', JStr ''Tijuca'')]]),
      writable = False\<rparr> =
   (0, [JObj [(''nome'', JStr ''Sul''), (''bairro'', JStr ''Leblon'')],
        JObj [(''nome'', JStr ''Centro''), (''bairro'', JStr ''Tijuca'')]])"
proof -
  let ?xs = "[JObj [(''id'', JInt 2), (''nome'', JStr ''Sul''), (''bairro'', JStr ''Leblon'')],
              JObj [(''id'', JInt 1), (''nome'', JStr ''Centro''), (''bairro'', JStr ''Tijuca'')]]"
  let ?s = "\<lparr>content = Parsed (JArr ?xs), writable = False\<rparr>"
  have c: "content ?s = Parsed (JArr ?xs)" by simp
  have h: "list_all has_nome_bairro ?xs" by (simp add: has_nome_bairro_def nome_bairro_def)
  from list_all_in_order[OF c h] show ?thesis
    by (simp add: spec_reduced_def spec_field_def)
qed

subsection \<open>Status codes across the interface\<close>

text \<open>
  C8, as stated: every one of the five functions returns 30 on a missing file and 31 on
  a malformed one. \<^verbatim>\<open>get_filial_proxima\<close> does not: it never opens the file, and
  answers from its table whatever the file's state.
\<close>

theorem nearest_branch_missing_file_counterexample:
  "content \<lparr>content = Missing, writable = True\<rparr> = Missing \<and>
   status (fst (run (Get_filial_proxima ''Ipanema'') \<lparr>content = Missing, writable = True\<rparr>)) = 0 \<and>
   status (fst (run (Get_filial_proxima ''Ipanema'') \<lparr>content = Missing, writable = True\<rparr>))
     \<noteq> ARQUIVO_NAO_ENCONTRADO \<and>
   content \<lparr>content = Malformed, writable = True\<rparr> = Malformed \<and>
   status (fst (run (Get_filial_proxima ''Copacabana'') \<lparr>content = Malformed, writable = True\<rparr>)) = 35 \<and>
   status (fst (run (Get_filial_proxima ''Copacabana'') \<lparr>content = Malformed, writable = True\<rparr>))
     \<noteq> ARQUIVO_EM_FORMATO_INVALIDO"
  by (simp add: get_filial_proxima_def filial_mais_proxima_def status_defs)

text \<open>
  C8, amended. Each of the four functions that open the backing file returns 30 when the
  file is missing and 31 when its content is not valid JSON; \<^verbatim>\<open>get_filial_proxima\<close>
  returns success or the neighbourhood-not-found status 35 whatever the state of the file.
\<close>

theorem file_errors_by_call:
  "(file_backed c \<and> content s = Missing \<longrightarrow> status (fst (run c s)) = 30) \<and>
   (file_backed c \<and> content s = Malformed \<longrightarrow> status (fst (run c s)) = 31) \<and>
   (\<not> file_backed c \<longrightarrow> status (fst (run c s)) = 0 \<or> status (fst (run c s)) = 35)"
proof (cases c)
  case (Get_filial_proxima b)
  then show ?thesis using scan_bairro_range[of filial_mais_proxima b]
    by (auto simp: get_filial_proxima_def split: prod.splits)
qed (simp_all add: add_filial_def add_filial_try_def del_filial_def del_filial_try_def
      get_filial_def get_filial_try_def get_filiais_def get_filiais_try_def load_filiais_def
      status_defs)

theorem file_errors_by_call_witness:
  "status (fst (run (Del_filial 1) \<lparr>content = Missing, writable = True\<rparr>)) = 30 \<and>
   status (fst (run Get_filiais \<lparr>content = Malformed, writable = True\<rparr>)) = 31 \<and>
   status (fst (run (Get_filial_proxima ''Gavea'') \<lparr>content = Missing, writable = True\<rparr>)) = 0"
  using file_errors_by_call [of "Del_filial 1" "\<lparr>content = Missing, writable = True\<rparr>"]
    file_errors_by_call [of Get_filiais "\<lparr>content = Malformed, writable = True\<rparr>"]
    file_errors_by_call [of "Get_filial_proxima ''Gavea''" "\<lparr>content = Missing, writable = True\<rparr>"]
  by (simp add: get_filial_proxima_def filial_mais_proxima_def status_defs)

text \<open>
  The text \<^verbatim>\<open>not json\<close> is rejected by the decoder. With the double quotes as part of
  the file's content it is the JSON string \<^verbatim>\<open>"not json"\<close>: the decoder accepts it, the
  functions iterate over its characters, and the subscription raises \<^verbatim>\<open>TypeError\<close>.
\<close>

lemma quoted_text_is_a_string:
  "add_filial i n b \<lparr>content = Parsed (JStr ''not json''), writable = True\<rparr> =
     (34, \<lparr>content = Parsed (JStr ''not json''), writable = True\<rparr>) \<and>
   del_filial i \<lparr>content = Parsed (JStr ''not json''), writable = True\<rparr> =
     (34, \<lparr>content = Parsed (JStr ''not json''), writable = True\<rparr>) \<and>
   get_filial i \<lparr>content = Parsed (JStr ''not json''), writable = True\<rparr> = (34, None) \<and>
   get_filiais \<lparr>content = Parsed (JStr ''not json''), writable = True\<rparr> = (34, [])"
  by (simp add: add_filial_def add_filial_try_def del_filial_def del_filial_try_def
      get_filial_def get_filial_try_def get_filiais_def get_filiais_try_def load_filiais_def
      nome_bairro_def status_defs)

text \<open>
  C9. No function of the interface returns the write-error status 32, on any argument and
  any state of the file. A failed write surfaces as 34: a call to \<^verbatim>\<open>add_filial\<close> or
  \<^verbatim>\<open>del_filial\<close> that would succeed on a writable file returns 34, and leaves the
  file alone, when the file cannot be written.
\<close>

theorem write_error_never_returned:
  "status (fst (run c s)) \<noteq> ERRO_NA_ESCRITA_DO_ARQUIVO \<and>
   status (fst (run c s)) \<noteq> 32 \<and>
   (\<not> writable s \<and> fst (add_filial i n b (s\<lparr>writable := True\<rparr>)) = 0 \<longrightarrow>
      add_filial i n b s = (34, s)) \<and>
   (\<not> writable s \<and> fst (del_filial j (s\<lparr>writable := True\<rparr>)) = 0 \<longrightarrow>
      del_filial j s = (34, s))"
  using run_status_range[of c s] add_filial_write_fails[of s i n b] del_filial_write_fails[of s j]
  by (auto simp: ERRO_NA_ESCRITA_DO_ARQUIVO_def)

theorem write_error_never_returned_witness:
  "status (fst (run (Add_filial 2 ''Sul'' ''Leblon'')
     \<lparr>content = Parsed (JArr [JObj [(''id'', JInt 1), (''nome'', JStr ''Centro''), (''bairro'', JStr ''Tijuca'')]]),
      writable = False\<rparr>)) \<noteq> 32 \<and>
   \<not> writable \<lparr>content = Parsed (JArr [JObj [(''id'', JInt 1), (''nome'', JStr ''Centro''), (''bairro'', JStr ''Tijuca'')]]),
      writable = False\<rparr> \<and>
   fst (add_filial 2 ''Sul'' ''Leblon''
     \<lparr>content = Parsed (JArr [JObj [(''id'', JInt 1), (''nome'', JStr ''Centro''), (''bairro'', JStr ''Tijuca'')]]),
      writable = True\<rparr>) = 0 \<and>
   fst (add_filial 2 ''Sul'' ''Leblon''
     \<lparr>content = Parsed (JArr [JObj [(''id'', JInt 1), (''nome'', JStr ''Centro''), (''bairro'', JStr ''Tijuca'')]]),
      writable = False\<rparr>) = 34 \<and>
   fst (del_filial 1
     \<lparr>content = Parsed (JArr [JObj [(''id'', JInt 1), (''nome'', JStr ''Centro''), (''bairro'', JStr ''Tijuca'')]]),
      writable = True\<rparr>) = 0 \<and>
   fst (del_filial 1
     \<lparr>content = Parsed (JArr [JObj [(''id'', JInt 1), (''nome'', JStr ''Centro''), (''bairro'', JStr ''Tijuca'')]]),
      writable = False\<rparr>) = 34"
proof -
  let ?xs = "[JObj [(''id'', JInt 1), (''nome'', JStr ''Centro''), (''bairro'', JStr ''Tijuca'')]]"
  let ?s = "\<lparr>content = Parsed (JArr ?xs), writable = False\<rparr>"
  have w: "\<not> writable ?s" by simp
  have a: "fst (add_filial 2 ''Sul'' ''Leblon'' (?s\<lparr>writable := True\<rparr>)) = 0"
    by (simp add: add_filial_def add_filial_try_def load_filiais_def dump_filiais_def
        OPERACAO_REALIZADA_COM_SUCESSO_def)
  have d: "fst (del_filial 1 (?s\<lparr>writable := True\<rparr>)) = 0"
    by (simp add: del_filial_def del_filial_try_def load_filiais_def dump_filiais_def
        OPERACAO_REALIZADA_COM_SUCESSO_def)
  from w a d
    write_error_never_returned
      [of "Add_filial 2 ''Sul'' ''Leblon''" ?s 2 "''Sul''" "''Leblon''" 1]
  show ?thesis by simp
qed

end
